theory Spec2Isabelle
  imports Main "HOL-Library.Word"
begin

unbundle bit_operations_syntax

section \<open>The Python binding \<^verbatim>\<open>bindings/python/zgbc.py\<close>\<close>

text \<open>
  The binding is a thin object wrapper over the C interface of the native emulator
  library. The embedding follows the file top to bottom: the module constants, the
  library discovery, and the class \<^verbatim>\<open>GameBoy\<close> whose methods forward to the native
  functions. Exceptions are values of \<open>py_error\<close>; a method returns its result (or the
  exception) together with the state of the native side after the call.
\<close>

subsection \<open>Exceptions\<close>

text \<open>
  \<open>RuntimeError\<close> carries its \<^verbatim>\<open>__cause__\<close>, set by \<^verbatim>\<open>raise ... from err\<close>.
\<close>

datatype py_error =
    OSError string
  | RuntimeError string "py_error option"
  | TypeError string
  | ValueError string
  | AttributeError string

fun is_OSError :: "py_error + 'a \<Rightarrow> bool" where
  "is_OSError (Inl (OSError m)) = True"
| "is_OSError r = False"

subsection \<open>Module constants\<close>

definition FRAME_WIDTH :: nat where
  "FRAME_WIDTH = 160"

definition FRAME_HEIGHT :: nat where
  "FRAME_HEIGHT = 144"

definition SAMPLE_RATE :: nat where
  "SAMPLE_RATE = 44100"

text \<open>The class \<^verbatim>\<open>Buttons\<close>: each constant is \<^verbatim>\<open>1 << k\<close> on Python integers.\<close>

definition Buttons_A :: int where
  "Buttons_A = push_bit 0 1"

definition Buttons_B :: int where
  "Buttons_B = push_bit 1 1"

definition Buttons_SELECT :: int where
  "Buttons_SELECT = push_bit 2 1"

definition Buttons_START :: int where
  "Buttons_START = push_bit 3 1"

definition Buttons_RIGHT :: int where
  "Buttons_RIGHT = push_bit 4 1"

definition Buttons_LEFT :: int where
  "Buttons_LEFT = push_bit 5 1"

definition Buttons_UP :: int where
  "Buttons_UP = push_bit 6 1"

definition Buttons_DOWN :: int where
  "Buttons_DOWN = push_bit 7 1"

subsection \<open>The host: platform, environment, dynamic loader, files\<close>

text \<open>
  What the module reads from its surroundings: \<^verbatim>\<open>sys.platform\<close>, \<^verbatim>\<open>os.environ\<close>,
  \<^verbatim>\<open>ctypes.CDLL\<close> (the library object, or the exception it raises) and
  \<^verbatim>\<open>Path.read_bytes\<close>. \<open>'l\<close> is the type of loaded library objects.
\<close>

record 'l host =
  platform :: string
  environ :: "string \<rightharpoonup> string"
  CDLL :: "string \<Rightarrow> py_error + 'l"
  read_bytes :: "string \<Rightarrow> py_error + 8 word list"

definition default_library_names :: "string \<Rightarrow> string list" where
  "default_library_names plat =
     (if take 3 plat = ''win'' then [''zgbc.dll'']
      else if plat = ''darwin'' then [''libzgbc.dylib'', ''zgbc.dylib'']
      else [''libzgbc.so''])"

text \<open>
  The \<^verbatim>\<open>for\<close> loop of \<^verbatim>\<open>load_library\<close>: only \<^verbatim>\<open>OSError\<close> is caught and remembered,
  any other exception of \<^verbatim>\<open>CDLL\<close> propagates; after the last name the
  \<^verbatim>\<open>RuntimeError\<close> is raised from the remembered error.
\<close>

fun try_names :: "(string \<Rightarrow> py_error + 'l) \<Rightarrow> string list \<Rightarrow> py_error option \<Rightarrow> py_error + 'l" where
  "try_names cdll [] last_err =
     Inl (RuntimeError ''Unable to locate libzgbc; set ZGBC_LIB or pass path explicitly'' last_err)"
| "try_names cdll (name # names) last_err =
     (case cdll name of
        Inr lib \<Rightarrow> Inr lib
      | Inl (OSError m) \<Rightarrow> try_names cdll names (Some (OSError m))
      | Inl err \<Rightarrow> Inl err)"

text \<open>
  \<open>path\<close> is the argument after \<^verbatim>\<open>os.fspath\<close>; \<open>None\<close> is Python's \<^verbatim>\<open>None\<close>.
  \<^verbatim>\<open>if env_path:\<close> is false for an unset variable and for the empty string.
\<close>

definition load_library :: "'l host \<Rightarrow> string option \<Rightarrow> py_error + 'l" where
  "load_library hst path =
     (case path of
        Some p \<Rightarrow> CDLL hst p
      | None \<Rightarrow>
          (case environ hst ''ZGBC_LIB'' of
             Some (c # cs) \<Rightarrow> CDLL hst (c # cs)
           | _ \<Rightarrow> try_names (CDLL hst) (default_library_names (platform hst)) None))"

subsection \<open>The native library as seen through \<^verbatim>\<open>ctypes\<close>\<close>

text \<open>
  The wrapper is parametric in the library object (\<^verbatim>\<open>lib\<close> argument of the constructor),
  and so is the embedding: a library is a record of the names the shared object
  exports and of the ten foreign functions the constructor declares, each a
  transformer of the native state \<open>'w\<close>. Looking up a name the library does not export
  raises \<^verbatim>\<open>AttributeError\<close>; the function field of such a name is never called, since
  the constructor looks all ten names up before the first call. Argument and result
  types follow the declared \<^verbatim>\<open>argtypes\<close>/\<^verbatim>\<open>restype\<close>:
  \<^item> a \<^verbatim>\<open>c_void_p\<close> result is \<^verbatim>\<open>None\<close> for the null pointer and the address otherwise;
  \<^item> \<^verbatim>\<open>c_uint8\<close>, \<^verbatim>\<open>c_uint16\<close>, \<^verbatim>\<open>c_uint32\<close>, \<^verbatim>\<open>c_int16\<close> are words of that width;
  \<^item> \<^verbatim>\<open>c_size_t\<close> lengths and counts are \<open>nat\<close>;
  \<^item> a function that fills a caller-provided array yields the elements it stores from the
    start of the array (\<open>array_after\<close> below puts them into the Python object).
\<close>

type_synonym handle = "nat option"

record 'w zgbc_lib =
  symbols :: "string list"
  zgbc_new :: "'w \<Rightarrow> handle \<times> 'w"
  zgbc_free :: "handle \<Rightarrow> 'w \<Rightarrow> 'w"
  zgbc_load_rom :: "handle \<Rightarrow> 8 word list \<Rightarrow> nat \<Rightarrow> 'w \<Rightarrow> bool \<times> 'w"
  zgbc_frame :: "handle \<Rightarrow> 'w \<Rightarrow> 'w"
  zgbc_set_input :: "handle \<Rightarrow> 8 word \<Rightarrow> 'w \<Rightarrow> 'w"
  zgbc_set_render_graphics :: "handle \<Rightarrow> bool \<Rightarrow> 'w \<Rightarrow> 'w"
  zgbc_set_render_audio :: "handle \<Rightarrow> bool \<Rightarrow> 'w \<Rightarrow> 'w"
  zgbc_get_frame_rgba :: "handle \<Rightarrow> 'w \<Rightarrow> 32 word list \<times> 'w"
  zgbc_get_audio_samples :: "handle \<Rightarrow> nat \<Rightarrow> 'w \<Rightarrow> (16 word list \<times> nat) \<times> 'w"
  zgbc_write :: "handle \<Rightarrow> 16 word \<Rightarrow> 8 word \<Rightarrow> 'w \<Rightarrow> 'w"

text \<open>Python truth value of a handle: \<^verbatim>\<open>None\<close> and \<^verbatim>\<open>0\<close> are false.\<close>

fun truthy :: "handle \<Rightarrow> bool" where
  "truthy None = False"
| "truthy (Some a) = (a \<noteq> 0)"

text \<open>
  A \<^verbatim>\<open>ctypes\<close> array has a fixed length. After the native function stored \<open>out\<close> from
  its start, the array holds those elements as far as it reaches, and its old
  elements behind them.
\<close>

definition array_after :: "'a list \<Rightarrow> 'a list \<Rightarrow> 'a list" where
  "array_after buf out = take (length buf) out @ drop (length out) buf"

subsection \<open>\<^verbatim>\<open>memoryview\<close> over a \<^verbatim>\<open>ctypes\<close> array\<close>

text \<open>
  A one-dimensional view: its struct format, its item size and the bytes it exposes.
  The format of a \<^verbatim>\<open>ctypes\<close> array of a simple type is the type's code behind an
  explicit byte-order mark (\<^verbatim>\<open><h\<close> on a little-endian host, \<^verbatim>\<open>>h\<close> on a big-endian
  one); \<open>big\<close> says whether \<^verbatim>\<open>sys.byteorder\<close> is \<^verbatim>\<open>'big'\<close>.
\<close>

record memoryview =
  mv_format :: string
  mv_itemsize :: nat
  mv_data :: "8 word list"

definition word_bytes :: "bool \<Rightarrow> 'a::len word \<Rightarrow> 8 word list" where
  "word_bytes big w =
     (let le = map (\<lambda>i. ucast (drop_bit (8 * i) w)) [0..<LENGTH('a) div 8]
      in if big then rev le else le)"

definition memoryview_of :: "bool \<Rightarrow> char \<Rightarrow> 'a::len word list \<Rightarrow> memoryview" where
  "memoryview_of big code xs =
     \<lparr>mv_format = [if big then CHR ''>'' else CHR ''<'', code],
      mv_itemsize = LENGTH('a) div 8,
      mv_data = concat (map (word_bytes big) xs)\<rparr>"

text \<open>\<^verbatim>\<open>len(view)\<close>: the number of items.\<close>

definition mv_len :: "memoryview \<Rightarrow> nat" where
  "mv_len mv = length (mv_data mv) div mv_itemsize mv"

text \<open>\<^verbatim>\<open>view[:k]\<close> for \<open>k \<ge> 0\<close>: the first \<open>k\<close> items (all of them when there are fewer).\<close>

definition mv_slice_to :: "memoryview \<Rightarrow> nat \<Rightarrow> memoryview" where
  "mv_slice_to mv k = mv\<lparr>mv_data := take (k * mv_itemsize mv) (mv_data mv)\<rparr>"

text \<open>
  \<^verbatim>\<open>view.cast(fmt)\<close>, as CPython implements it: a format is native when it is a single
  type code behind an optional \<^verbatim>\<open>@\<close>; the destination must be native; source or
  destination must be a byte format (\<^verbatim>\<open>c\<close>, \<^verbatim>\<open>b\<close>, \<^verbatim>\<open>B\<close>), and a source format that
  is not native counts as not a byte format; the byte length must be a multiple of the
  new item size. Item sizes are those of an LP64 platform.
\<close>

definition native_size :: "char \<Rightarrow> nat option" where
  "native_size c =
     (if c \<in> set ''cbB?'' then Some 1
      else if c \<in> set ''hHe'' then Some 2
      else if c \<in> set ''iIf'' then Some 4
      else if c \<in> set ''lLqQnNdP'' then Some 8
      else None)"

definition native_fmtchar :: "string \<Rightarrow> (char \<times> nat) option" where
  "native_fmtchar fmt =
     (case (if take 1 fmt = ''@'' then drop 1 fmt else fmt) of
        [c] \<Rightarrow> map_option (Pair c) (native_size c)
      | _ \<Rightarrow> None)"

definition is_byte_format :: "char \<Rightarrow> bool" where
  "is_byte_format c = (c \<in> set ''cbB'')"

definition mv_cast :: "memoryview \<Rightarrow> string \<Rightarrow> py_error + memoryview" where
  "mv_cast mv fmt =
     (case native_fmtchar fmt of
        None \<Rightarrow> Inl (ValueError ''memoryview: destination format must be a native single character format'')
      | Some (dest, sz) \<Rightarrow>
          if \<not> is_byte_format dest \<and>
             (case native_fmtchar (mv_format mv) of
                None \<Rightarrow> True
              | Some (src, n) \<Rightarrow> \<not> is_byte_format src)
          then Inl (TypeError ''memoryview: cannot cast between two non-byte formats'')
          else if length (mv_data mv) mod sz \<noteq> 0
          then Inl (TypeError ''memoryview: length is not a multiple of itemsize'')
          else Inr \<lparr>mv_format = [dest], mv_itemsize = sz, mv_data = mv_data mv\<rparr>)"

subsection \<open>The class \<^verbatim>\<open>GameBoy\<close>\<close>

text \<open>
  An object has two attributes, \<^verbatim>\<open>_lib\<close> and \<^verbatim>\<open>_handle\<close>; \<open>None\<close> in the record means
  the attribute has not been assigned (the constructor raised before reaching it).
  \<open>handle_attr = Some None\<close> is the attribute holding Python's \<^verbatim>\<open>None\<close>.
\<close>

record 'w gameboy =
  lib_attr :: "'w zgbc_lib option"
  handle_attr :: "handle option"

text \<open>An object on which both attributes are bound.\<close>

definition gb_object :: "'w zgbc_lib \<Rightarrow> handle \<Rightarrow> 'w gameboy" where
  "gb_object lib h = \<lparr>lib_attr = Some lib, handle_attr = Some h\<rparr>"

text \<open>
  \<^verbatim>\<open>self._lib.f(self._handle, ...)\<close>: the two attribute reads, then the body with the
  library and the handle.
\<close>

definition with_native ::
  "'w gameboy \<Rightarrow> 'w \<Rightarrow> ('w zgbc_lib \<Rightarrow> handle \<Rightarrow> (py_error + 'a) \<times> 'w) \<Rightarrow> (py_error + 'a) \<times> 'w" where
  "with_native self w body =
     (case lib_attr self of
        None \<Rightarrow> (Inl (AttributeError ''_lib''), w)
      | Some lib \<Rightarrow>
          (case handle_attr self of
             None \<Rightarrow> (Inl (AttributeError ''_handle''), w)
           | Some h \<Rightarrow> body lib h))"

text \<open>The \<^verbatim>\<open>rom\<close> argument: a bytes object, or a path (\<^verbatim>\<open>str\<close> or \<^verbatim>\<open>os.PathLike\<close>).\<close>

datatype rom_arg = RomBytes "8 word list" | RomPath string

definition load_rom :: "'l host \<Rightarrow> 'w gameboy \<Rightarrow> rom_arg \<Rightarrow> 'w \<Rightarrow> (py_error + unit) \<times> 'w" where
  "load_rom hst self rom w =
     (case (case rom of RomPath p \<Rightarrow> read_bytes hst p | RomBytes d \<Rightarrow> Inr d) of
        Inl err \<Rightarrow> (Inl err, w)
      | Inr data \<Rightarrow>
          with_native self w (\<lambda>lib h.
            case zgbc_load_rom lib h data (length data) w of
              (ok, w') \<Rightarrow>
                if \<not> ok then (Inl (RuntimeError ''zgbc_load_rom() failed'' None), w')
                else (Inr (), w')))"

definition skip_boot :: "'w gameboy \<Rightarrow> 'w \<Rightarrow> (py_error + unit) \<times> 'w" where
  "skip_boot self w =
     with_native self w (\<lambda>lib h. (Inr (), zgbc_write lib h 0xFF50 1 w))"

definition frame :: "'w gameboy \<Rightarrow> 'w \<Rightarrow> (py_error + unit) \<times> 'w" where
  "frame self w = with_native self w (\<lambda>lib h. (Inr (), zgbc_frame lib h w))"

definition set_input :: "'w gameboy \<Rightarrow> int \<Rightarrow> 'w \<Rightarrow> (py_error + unit) \<times> 'w" where
  "set_input self buttons w =
     with_native self w (\<lambda>lib h.
       (Inr (), zgbc_set_input lib h (word_of_int (buttons AND 0xFF)) w))"

definition set_headless :: "'w gameboy \<Rightarrow> bool \<Rightarrow> bool \<Rightarrow> 'w \<Rightarrow> (py_error + unit) \<times> 'w" where
  "set_headless self graphics audio w =
     (case with_native self w (\<lambda>lib h. (Inr (), zgbc_set_render_graphics lib h graphics w)) of
        (Inl err, w1) \<Rightarrow> (Inl err, w1)
      | (Inr u, w1) \<Rightarrow>
          with_native self w1 (\<lambda>lib h. (Inr (), zgbc_set_render_audio lib h audio w1)))"

definition get_frame_rgba :: "bool \<Rightarrow> 'w gameboy \<Rightarrow> 'w \<Rightarrow> (py_error + memoryview) \<times> 'w" where
  "get_frame_rgba big self w =
     (let buf = replicate (FRAME_WIDTH * FRAME_HEIGHT) (0 :: 32 word)
      in with_native self w (\<lambda>lib h.
           case zgbc_get_frame_rgba lib h w of
             (out, w') \<Rightarrow> (mv_cast (memoryview_of big CHR ''I'' (array_after buf out)) ''B'', w')))"

text \<open>
  \<^verbatim>\<open>(ctypes.c_int16 * max_samples)()\<close> raises \<^verbatim>\<open>ValueError\<close> for a negative length. The
  count the native function returns is a \<^verbatim>\<open>c_size_t\<close>, so \<^verbatim>\<open>count * 2\<close> is not negative.
  A call without argument is the call with \<^verbatim>\<open>max_samples = 2048\<close>.
\<close>

definition get_audio_samples :: "bool \<Rightarrow> 'w gameboy \<Rightarrow> int \<Rightarrow> 'w \<Rightarrow> (py_error + memoryview) \<times> 'w" where
  "get_audio_samples big self max_samples w =
     (if max_samples < 0 then (Inl (ValueError ''Array length must be >= 0''), w)
      else
        let buf = replicate (nat max_samples) (0 :: 16 word)
        in with_native self w (\<lambda>lib h.
             case zgbc_get_audio_samples lib h (nat max_samples) w of
               ((out, count), w') \<Rightarrow>
                 (mv_cast (mv_slice_to (memoryview_of big CHR ''h'' (array_after buf out)) (count * 2)) ''h'',
                  w')))"

text \<open>
  The names \<^verbatim>\<open>__init__\<close> looks up on the library, in the order of its
  \<^verbatim>\<open>restype\<close>/\<^verbatim>\<open>argtypes\<close> assignments.
\<close>

definition declared_symbols :: "string list" where
  "declared_symbols =
     [''zgbc_new'', ''zgbc_free'', ''zgbc_load_rom'', ''zgbc_frame'', ''zgbc_set_input'',
      ''zgbc_set_render_graphics'', ''zgbc_set_render_audio'', ''zgbc_get_frame_rgba'',
      ''zgbc_get_audio_samples'', ''zgbc_write'']"

text \<open>
  The assignments \<^verbatim>\<open>self._lib.zgbc_*.restype = ...\<close> and \<^verbatim>\<open>.argtypes = ...\<close>: each reads
  the function from the library first, and the first name the library does not export
  raises \<^verbatim>\<open>AttributeError\<close>. The types assigned are the types of \<open>zgbc_lib\<close>.
\<close>

definition declare_symbols :: "'w zgbc_lib \<Rightarrow> py_error option" where
  "declare_symbols lib =
     map_option AttributeError (find (\<lambda>name. name \<notin> set (symbols lib)) declared_symbols)"

text \<open>
  \<^verbatim>\<open>__init__\<close>: the object's attributes after the body ran, with the exception it raised
  if any. \<^verbatim>\<open>lib or load_library()\<close> takes the given library object (a \<^verbatim>\<open>CDLL\<close> object
  is always true) and searches otherwise; \<^verbatim>\<open>_lib\<close> is bound before the lookups, so an
  object whose lookups failed has \<^verbatim>\<open>_lib\<close> and no \<^verbatim>\<open>_handle\<close>.
\<close>

definition GameBoy_init ::
  "'w zgbc_lib host \<Rightarrow> rom_arg option \<Rightarrow> 'w zgbc_lib option \<Rightarrow> 'w \<Rightarrow> py_error option \<times> 'w gameboy \<times> 'w" where
  "GameBoy_init hst rom lib w =
     (case (case lib of Some l \<Rightarrow> Inr l | None \<Rightarrow> load_library hst None) of
        Inl err \<Rightarrow> (Some err, \<lparr>lib_attr = None, handle_attr = None\<rparr>, w)
      | Inr l \<Rightarrow>
          (case declare_symbols l of
             Some err \<Rightarrow> (Some err, \<lparr>lib_attr = Some l, handle_attr = None\<rparr>, w)
           | None \<Rightarrow>
               (case zgbc_new l w of
                  (h, w1) \<Rightarrow>
                    let self = \<lparr>lib_attr = Some l, handle_attr = Some h\<rparr>
                    in if \<not> truthy h
                       then (Some (RuntimeError ''zgbc_new() returned NULL'' None), self, w1)
                       else
                         (case rom of
                            None \<Rightarrow> (None, self, w1)
                          | Some r \<Rightarrow>
                              (case load_rom hst self r w1 of
                                 (Inl err, w2) \<Rightarrow> (Some err, self, w2)
                               | (Inr u, w2) \<Rightarrow> (None, self, w2))))))"

text \<open>
  \<^verbatim>\<open>__del__\<close>: \<^verbatim>\<open>getattr(self, "_handle", None)\<close> reads an unassigned attribute as
  \<^verbatim>\<open>None\<close>; the attribute is set to \<^verbatim>\<open>None\<close> before the call; an exception inside the
  \<^verbatim>\<open>try\<close> (here: \<^verbatim>\<open>_lib\<close> unassigned) is swallowed.
\<close>

definition GameBoy_del :: "'w gameboy \<Rightarrow> 'w \<Rightarrow> 'w gameboy \<times> 'w" where
  "GameBoy_del self w =
     (let h = (case handle_attr self of None \<Rightarrow> None | Some v \<Rightarrow> v);
          self' = self\<lparr>handle_attr := Some None\<rparr>
      in if truthy h
         then (case lib_attr self' of
                 None \<Rightarrow> (self', w)
               | Some lib \<Rightarrow> (self', zgbc_free lib h w))
         else (self', w))"

section \<open>The native core behind the C interface\<close>

text \<open>
  The emulator core is not part of the binding. Where a property depends on what
  the core does, the core is modelled from the specification's description of the
  boundary calls and of the data they touch, and nothing more: what the specification
  leaves open is a field of \<open>core_cfg\<close>.
\<close>

text \<open>
  Modelled from the spec: the state of one emulator instance of the absent native core,
  restricted to what the boundary calls observe: the loaded cartridge image, the
  boot-overlay latch, the clock ticks simulated so far, the latched button bitmask, the
  two render flags, the most recently completed frame and the audio output queue.
\<close>

record core =
  cart :: "8 word list"
  overlay :: bool
  ticks :: nat
  joypad :: "8 word"
  render_graphics :: bool
  render_audio :: bool
  frame_buffer :: "32 word list"
  audio_queue :: "16 word list"

text \<open>
  Modelled from the spec: what the specification fixes without giving a value or an
  algorithm for the absent core: the total tick count of a frame, the boot image, the
  header parser (mapper code and declared size; \<open>None\<close> for an invalid header), the
  supported mapper codes, the high-water mark of the audio queue, and the picture and
  the samples one frame produces.
\<close>

record core_cfg =
  ticks_per_frame :: nat
  boot_image :: "8 word list"
  parse_header :: "8 word list \<Rightarrow> (nat \<times> nat) option"
  supported_mappers :: "nat list"
  queue_limit :: nat
  ppu_render :: "core \<Rightarrow> 32 word list"
  apu_mix :: "core \<Rightarrow> 16 word list"

text \<open>
  Modelled from the spec: the native side as a whole (absent core): the live instances
  by address, the next address to hand out, and how many more instances the resources
  allow.
\<close>

record world =
  instances :: "nat \<rightharpoonup> core"
  next_addr :: nat
  room :: nat

text \<open>
  Modelled from the spec: the power-on state of an instance of the absent core
  (overlay active, no cartridge, empty audio queue, a blank frame).
\<close>

definition power_on :: core where
  "power_on =
     \<lparr>cart = [], overlay = True, ticks = 0, joypad = 0,
      render_graphics = True, render_audio = True,
      frame_buffer = replicate (FRAME_WIDTH * FRAME_HEIGHT) 0, audio_queue = []\<rparr>"

text \<open>
  Modelled from the spec: \<^emph>\<open>create\<close> of the absent core: an opaque handle to an instance
  at power-on defaults, or the null handle on resource exhaustion.
\<close>

definition core_new :: "world \<Rightarrow> handle \<times> world" where
  "core_new w =
     (if room w = 0 then (None, w)
      else (Some (Suc (next_addr w)),
            w\<lparr>instances := (instances w)(Suc (next_addr w) \<mapsto> power_on),
              next_addr := Suc (next_addr w),
              room := room w - 1\<rparr>))"

text \<open>
  Modelled from the spec: \<^emph>\<open>destroy\<close> of the absent core: releases the instance; the
  handle is invalid afterwards. A handle that names no live instance changes nothing.
\<close>

definition core_free :: "handle \<Rightarrow> world \<Rightarrow> world" where
  "core_free h w =
     (case h of
        None \<Rightarrow> w
      | Some a \<Rightarrow>
          (case instances w a of
             None \<Rightarrow> w
           | Some c \<Rightarrow> w\<lparr>instances := (instances w)(a := None), room := Suc (room w)\<rparr>))"

text \<open>
  Modelled from the spec: a boundary call of the absent core that only changes the
  instance the handle names; other instances are isolated from it.
\<close>

definition on_instance :: "handle \<Rightarrow> (core \<Rightarrow> core) \<Rightarrow> world \<Rightarrow> world" where
  "on_instance h f w =
     (case h of
        None \<Rightarrow> w
      | Some a \<Rightarrow>
          (case instances w a of
             None \<Rightarrow> w
           | Some c \<Rightarrow> w\<lparr>instances := (instances w)(a \<mapsto> f c)\<rparr>))"

text \<open>
  Modelled from the spec: the load-time check of the absent core: the header must parse,
  the mapper must be supported and the image must not be smaller than its declared size.
\<close>

definition rom_accepted :: "core_cfg \<Rightarrow> 8 word list \<Rightarrow> bool" where
  "rom_accepted cfg img =
     (case parse_header cfg img of
        None \<Rightarrow> False
      | Some (mapper, declared) \<Rightarrow>
          mapper \<in> set (supported_mappers cfg) \<and> declared \<le> length img)"

text \<open>
  Modelled from the spec: \<^emph>\<open>load ROM\<close> of the absent core: fails on an invalid header, an
  unsupported mapper or a truncated image and leaves the instance as it was; otherwise
  maps the image.
\<close>

definition core_load_rom :: "core_cfg \<Rightarrow> handle \<Rightarrow> 8 word list \<Rightarrow> nat \<Rightarrow> world \<Rightarrow> bool \<times> world" where
  "core_load_rom cfg h data len w =
     (case h of
        None \<Rightarrow> (False, w)
      | Some a \<Rightarrow>
          (case instances w a of
             None \<Rightarrow> (False, w)
           | Some c \<Rightarrow>
               if rom_accepted cfg (take len data)
               then (True, on_instance h (\<lambda>c. c\<lparr>cart := take len data\<rparr>) w)
               else (False, w)))"

text \<open>
  Modelled from the spec: the audio queue of the absent core never exceeds its
  high-water mark; the oldest samples are dropped.
\<close>

definition enqueue :: "nat \<Rightarrow> 16 word list \<Rightarrow> 16 word list \<Rightarrow> 16 word list" where
  "enqueue limit q new = drop (length (q @ new) - limit) (q @ new)"

text \<open>
  Modelled from the spec: \<^emph>\<open>advance frame\<close> of the absent core: a call completes in the
  fixed number of simulated ticks of a full frame; a disabled subsystem skips its
  output without desynchronising the timing.
\<close>

definition core_frame :: "core_cfg \<Rightarrow> handle \<Rightarrow> world \<Rightarrow> world" where
  "core_frame cfg h w =
     on_instance h (\<lambda>c.
       c\<lparr>ticks := ticks c + ticks_per_frame cfg,
         frame_buffer := (if render_graphics c then ppu_render cfg c else frame_buffer c),
         audio_queue := (if render_audio c then enqueue (queue_limit cfg) (audio_queue c) (apu_mix cfg c)
                         else audio_queue c)\<rparr>) w"

text \<open>Modelled from the spec: \<^emph>\<open>set input\<close> of the absent core latches the button bitmask.\<close>

definition core_set_input :: "handle \<Rightarrow> 8 word \<Rightarrow> world \<Rightarrow> world" where
  "core_set_input h b w = on_instance h (\<lambda>c. c\<lparr>joypad := b\<rparr>) w"

text \<open>Modelled from the spec: the graphics toggle of the absent core.\<close>

definition core_set_render_graphics :: "handle \<Rightarrow> bool \<Rightarrow> world \<Rightarrow> world" where
  "core_set_render_graphics h on w = on_instance h (\<lambda>c. c\<lparr>render_graphics := on\<rparr>) w"

text \<open>Modelled from the spec: the audio toggle of the absent core.\<close>

definition core_set_render_audio :: "handle \<Rightarrow> bool \<Rightarrow> world \<Rightarrow> world" where
  "core_set_render_audio h on w = on_instance h (\<lambda>c. c\<lparr>render_audio := on\<rparr>) w"

text \<open>
  Modelled from the spec: \<^emph>\<open>read frame buffer\<close> of the absent core fills the buffer with
  the most recently completed frame.
\<close>

definition core_get_frame_rgba :: "handle \<Rightarrow> world \<Rightarrow> 32 word list \<times> world" where
  "core_get_frame_rgba h w =
     (case h of
        None \<Rightarrow> ([], w)
      | Some a \<Rightarrow>
          (case instances w a of
             None \<Rightarrow> ([], w)
           | Some c \<Rightarrow> (frame_buffer c, w)))"

text \<open>
  Modelled from the spec: \<^emph>\<open>read audio samples\<close> of the absent core copies up to capacity
  queued samples, returns the count written and drains the queue by that amount.
\<close>

definition core_get_audio_samples :: "handle \<Rightarrow> nat \<Rightarrow> world \<Rightarrow> (16 word list \<times> nat) \<times> world" where
  "core_get_audio_samples h cap w =
     (case h of
        None \<Rightarrow> (([], 0), w)
      | Some a \<Rightarrow>
          (case instances w a of
             None \<Rightarrow> (([], 0), w)
           | Some c \<Rightarrow>
               ((take cap (audio_queue c), length (take cap (audio_queue c))),
                on_instance h (\<lambda>c. c\<lparr>audio_queue := drop cap (audio_queue c)\<rparr>) w)))"

text \<open>
  Modelled from the spec: \<^emph>\<open>raw memory write\<close> of the absent core, as far as the kept
  state goes: a write to \<open>0xFF50\<close> disables the boot overlay for good.
\<close>

definition core_write :: "handle \<Rightarrow> 16 word \<Rightarrow> 8 word \<Rightarrow> world \<Rightarrow> world" where
  "core_write h addr v w =
     on_instance h (\<lambda>c. if addr = 0xFF50 then c\<lparr>overlay := False\<rparr> else c) w"

text \<open>
  Modelled from the spec: a bus read of the absent core in the overlay window
  \<open>0x0000\<close>--\<open>0x00FF\<close>: from the boot image while the overlay is active, from the
  cartridge image otherwise. \<open>None\<close> outside the window or the backing image.
\<close>

definition bus_read :: "core_cfg \<Rightarrow> core \<Rightarrow> 16 word \<Rightarrow> 8 word option" where
  "bus_read cfg c addr =
     (let src = (if overlay c then boot_image cfg else cart c)
      in if unat addr < 0x100 \<and> unat addr < length src then Some (src ! unat addr) else None)"

text \<open>
  Modelled from the spec: the bus read of the absent core on the instance a handle
  names (the binding declares no such call; it is what a test of the core observes).
\<close>

definition core_read :: "core_cfg \<Rightarrow> handle \<Rightarrow> 16 word \<Rightarrow> world \<Rightarrow> 8 word option" where
  "core_read cfg h addr w =
     (case h of
        None \<Rightarrow> None
      | Some a \<Rightarrow>
          (case instances w a of
             None \<Rightarrow> None
           | Some c \<Rightarrow> bus_read cfg c addr))"

text \<open>
  Modelled from the spec: the clock cycles the instance a handle names has consumed
  in the absent core; \<open>None\<close> when the handle names no live instance.
\<close>

definition core_ticks :: "handle \<Rightarrow> world \<Rightarrow> nat option" where
  "core_ticks h w =
     (case h of
        None \<Rightarrow> None
      | Some a \<Rightarrow> map_option ticks (instances w a))"

text \<open>
  Modelled from the spec: the absent native library, as the library object the wrapper
  drives; it exports every boundary call the binding declares.
\<close>

definition zgbc_core :: "core_cfg \<Rightarrow> world zgbc_lib" where
  "zgbc_core cfg =
     \<lparr>symbols = declared_symbols,
      zgbc_new = core_new,
      zgbc_free = core_free,
      zgbc_load_rom = core_load_rom cfg,
      zgbc_frame = core_frame cfg,
      zgbc_set_input = core_set_input,
      zgbc_set_render_graphics = core_set_render_graphics,
      zgbc_set_render_audio = core_set_render_audio,
      zgbc_get_frame_rgba = core_get_frame_rgba,
      zgbc_get_audio_samples = core_get_audio_samples,
      zgbc_write = core_write\<rparr>"

section \<open>Callers\<close>

text \<open>\<^verbatim>\<open>for _ in range(n): gb.frame()\<close>, stopping at the first exception.\<close>

fun frames :: "nat \<Rightarrow> 'w gameboy \<Rightarrow> 'w \<Rightarrow> (py_error + unit) \<times> 'w" where
  "frames 0 self w = (Inr (), w)"
| "frames (Suc n) self w =
     (case frame self w of
        (Inl err, w') \<Rightarrow> (Inl err, w')
      | (Inr u, w') \<Rightarrow> frames n self w')"

text \<open>The finalizer run \<open>n\<close> times on the same object.\<close>

fun finalize :: "nat \<Rightarrow> 'w gameboy \<Rightarrow> 'w \<Rightarrow> 'w gameboy \<times> 'w" where
  "finalize 0 self w = (self, w)"
| "finalize (Suc n) self w = (case GameBoy_del self w of (self', w') \<Rightarrow> finalize n self' w')"

section \<open>Concrete inputs\<close>

text \<open>
  A configuration of the modelled core in the manner of the original handheld: 70224
  ticks per frame, the mapper code at offset \<open>0x147\<close> and the size code at \<open>0x148\<close>
  of the header (32 KiB shifted by the code), mapper codes 0 to 3 supported. The frame
  shows the low button byte in every pixel, and every frame queues the two samples
  1 and 2.
\<close>

definition example_cfg :: core_cfg where
  "example_cfg =
     \<lparr>ticks_per_frame = 70224,
      boot_image = 0x31 # replicate 255 0,
      parse_header = (\<lambda>img. if length img < 0x150 then None
                              else Some (unat (img ! 0x147), 32768 * 2 ^ unat (img ! 0x148))),
      supported_mappers = [0, 1, 2, 3],
      queue_limit = 4096,
      ppu_render = (\<lambda>c. replicate (FRAME_WIDTH * FRAME_HEIGHT) (ucast (joypad c))),
      apu_mix = (\<lambda>c. [1, 2])\<rparr>"

text \<open>A 32 KiB image without mapper whose first byte is \<open>0xC3\<close>, and two images the core rejects.\<close>

definition example_rom :: "8 word list" where
  "example_rom = 0xC3 # replicate 32767 0"

definition truncated_rom :: "8 word list" where
  "truncated_rom = [0xC3, 0, 0]"

definition unsupported_rom :: "8 word list" where
  "unsupported_rom = replicate 32768 0xFC"

text \<open>The native side before any instance exists, with room for two instances, and without room.\<close>

definition fresh_world :: world where
  "fresh_world = \<lparr>instances = Map.empty, next_addr = 0, room = 2\<rparr>"

definition exhausted_world :: world where
  "exhausted_world = \<lparr>instances = Map.empty, next_addr = 0, room = 0\<rparr>"

text \<open>The native side with one instance at address 1 in state \<open>c\<close>.\<close>

definition world_with :: "core \<Rightarrow> world" where
  "world_with c = \<lparr>instances = [1 \<mapsto> c], next_addr = 1, room = 1\<rparr>"

text \<open>
  Hosts: a macOS machine on which only the second default name loads, the same machine
  with \<^verbatim>\<open>ZGBC_LIB\<close> set, and a Linux machine without the library. The only readable file
  is \<^verbatim>\<open>roms/demo.gb\<close>.
\<close>

definition darwin_host :: "world zgbc_lib host" where
  "darwin_host =
     \<lparr>platform = ''darwin'',
      environ = Map.empty,
      CDLL = (\<lambda>name. if name = ''zgbc.dylib'' \<or> name = ''/opt/zgbc/libzgbc.so''
                       then Inr (zgbc_core example_cfg)
                       else Inl (OSError name)),
      read_bytes = (\<lambda>p. if p = ''roms/demo.gb'' then Inr example_rom else Inl (OSError p))\<rparr>"

text \<open>
  A shared object that is not the emulator library, or an older build of it: it exports
  create and destroy only.
\<close>

definition stripped_lib :: "world zgbc_lib" where
  "stripped_lib = (zgbc_core example_cfg)\<lparr>symbols := [''zgbc_new'', ''zgbc_free'']\<rparr>"

definition env_host :: "world zgbc_lib host" where
  "env_host = darwin_host\<lparr>environ := [''ZGBC_LIB'' \<mapsto> ''/opt/zgbc/libzgbc.so'']\<rparr>"

definition bare_host :: "world zgbc_lib host" where
  "bare_host = darwin_host\<lparr>platform := ''linux''\<rparr>"

section \<open>Properties of the library discovery\<close>

lemma dropWhile_Cons_not_all:
  "dropWhile P xs = y # ys \<Longrightarrow> \<forall>x\<in>set xs. P x \<Longrightarrow> False"
  by (metis dropWhile_eq_Nil_conv list.distinct(1))

text \<open>
  The loop returns the outcome of the first name whose load does not raise
  \<^verbatim>\<open>OSError\<close>; when every name raises it, the \<^verbatim>\<open>RuntimeError\<close> carries the error of the
  last name.
\<close>

lemma try_names_dropWhile:
  "try_names cdll names last_err =
     (case dropWhile (\<lambda>n. is_OSError (cdll n)) names of
        [] \<Rightarrow> Inl (RuntimeError ''Unable to locate libzgbc; set ZGBC_LIB or pass path explicitly''
                 (if names = [] then last_err else Some (projl (cdll (last names)))))
      | n # ns \<Rightarrow> cdll n)"
proof (induction names arbitrary: last_err)
  case Nil
  show ?case by simp
next
  case (Cons name names)
  show ?case
  proof (cases "cdll name")
    case (Inr lib)
    then show ?thesis by simp
  next
    case (Inl err)
    then show ?thesis
      by (cases err) (auto simp: Cons.IH split: list.splits dest: dropWhile_Cons_not_all)
  qed
qed

lemma default_library_names_nonempty: "default_library_names plat \<noteq> []"
  by (simp add: default_library_names_def)

text \<open>
  C9. \<^verbatim>\<open>load_library\<close> resolves the library with a fixed precedence: an explicit path is
  passed to \<^verbatim>\<open>CDLL\<close> and its outcome is the outcome, whatever the environment; without a
  path, a non-empty \<^verbatim>\<open>ZGBC_LIB\<close> is passed to \<^verbatim>\<open>CDLL\<close> likewise; without either, the
  platform's default names are tried in order, the first that does not raise \<^verbatim>\<open>OSError\<close>
  decides, and when all of them raise it the result is a \<^verbatim>\<open>RuntimeError\<close> whose cause
  is the \<^verbatim>\<open>OSError\<close> of the last name.
\<close>

theorem load_library_precedence:
  "load_library hst (Some p) = CDLL hst p
   \<and> (environ hst ''ZGBC_LIB'' = Some e \<and> e \<noteq> [] \<longrightarrow> load_library hst None = CDLL hst e)
   \<and> (environ hst ''ZGBC_LIB'' = None \<or> environ hst ''ZGBC_LIB'' = Some [] \<longrightarrow>
        load_library hst None =
          (case dropWhile (\<lambda>n. is_OSError (CDLL hst n)) (default_library_names (platform hst)) of
             [] \<Rightarrow> Inl (RuntimeError ''Unable to locate libzgbc; set ZGBC_LIB or pass path explicitly''
                      (Some (projl (CDLL hst (last (default_library_names (platform hst)))))))
           | n # ns \<Rightarrow> CDLL hst n))"
proof (intro conjI impI)
  show "load_library hst (Some p) = CDLL hst p"
    by (simp add: load_library_def)
next
  assume "environ hst ''ZGBC_LIB'' = Some e \<and> e \<noteq> []"
  then show "load_library hst None = CDLL hst e"
    by (cases e) (simp_all add: load_library_def)
next
  assume "environ hst ''ZGBC_LIB'' = None \<or> environ hst ''ZGBC_LIB'' = Some []"
  then have "load_library hst None =
      try_names (CDLL hst) (default_library_names (platform hst)) None"
    by (auto simp: load_library_def)
  then show "load_library hst None =
          (case dropWhile (\<lambda>n. is_OSError (CDLL hst n)) (default_library_names (platform hst)) of
             [] \<Rightarrow> Inl (RuntimeError ''Unable to locate libzgbc; set ZGBC_LIB or pass path explicitly''
                      (Some (projl (CDLL hst (last (default_library_names (platform hst)))))))
           | n # ns \<Rightarrow> CDLL hst n)"
    by (simp add: try_names_dropWhile default_library_names_nonempty)
qed

theorem load_library_precedence_witness:
  "(environ env_host ''ZGBC_LIB'' = Some ''/opt/zgbc/libzgbc.so'' \<and> ''/opt/zgbc/libzgbc.so'' \<noteq> []
      \<and> load_library env_host None = Inr (zgbc_core example_cfg))
   \<and> (environ darwin_host ''ZGBC_LIB'' = None \<and> load_library darwin_host None = Inr (zgbc_core example_cfg))
   \<and> (environ bare_host ''ZGBC_LIB'' = None
      \<and> load_library bare_host None =
          Inl (RuntimeError ''Unable to locate libzgbc; set ZGBC_LIB or pass path explicitly''
                (Some (OSError ''libzgbc.so''))))"
  using load_library_precedence [of env_host "''unused''" "''/opt/zgbc/libzgbc.so''"]
    load_library_precedence [of darwin_host "''unused''" "''unused''"]
    load_library_precedence [of bare_host "''unused''" "''unused''"]
  by (simp add: env_host_def darwin_host_def bare_host_def default_library_names_def)

section \<open>Properties of the methods\<close>

lemma with_native_object [simp]: "with_native (gb_object lib h) w body = body lib h"
  by (simp add: with_native_def gb_object_def)

lemma int_and_255_mod: "(b::int) AND 0xFF = b mod 2 ^ 8"
proof -
  have m: "(0xFF::int) = mask 8"
    by (simp add: mask_eq_exp_minus_1)
  have "b AND mask 8 = take_bit 8 b"
    by (rule take_bit_eq_mask [symmetric])
  also have "\<dots> = b mod 2 ^ 8"
    by (rule take_bit_eq_mod)
  finally show ?thesis
    by (simp only: m)
qed

text \<open>
  C6. For every integer \<open>buttons\<close>, also outside \<open>0..255\<close> and negative, \<^verbatim>\<open>set_input\<close>
  passes to the native function the byte whose value is \<open>buttons mod 2^8\<close>, and the
  constants A, B, Select, Start, Right, Left, Up, Down are the bits 0 to 7 in that order.
\<close>

theorem set_input_latches_low_byte:
  "set_input (gb_object lib h) buttons w =
      (Inr (), zgbc_set_input lib h (word_of_int (buttons mod 2 ^ 8)) w)
   \<and> uint (word_of_int (buttons AND 0xFF) :: 8 word) = buttons mod 2 ^ 8
   \<and> [Buttons_A, Buttons_B, Buttons_SELECT, Buttons_START,
       Buttons_RIGHT, Buttons_LEFT, Buttons_UP, Buttons_DOWN] = map (\<lambda>k. 2 ^ k) [0..<8]"
proof (intro conjI)
  show "set_input (gb_object lib h) buttons w =
      (Inr (), zgbc_set_input lib h (word_of_int (buttons mod 2 ^ 8)) w)"
    by (simp add: set_input_def int_and_255_mod)
next
  have "uint (word_of_int (buttons mod 2 ^ 8) :: 8 word) = buttons mod 2 ^ 8"
    by (simp add: uint_word_of_int)
  then show "uint (word_of_int (buttons AND 0xFF) :: 8 word) = buttons mod 2 ^ 8"
    by (simp only: int_and_255_mod)
next
  have "[0..<8] = [0, 1, 2, 3, 4, 5, 6, 7::nat]"
    by (simp add: upt_rec)
  then show "[Buttons_A, Buttons_B, Buttons_SELECT, Buttons_START,
       Buttons_RIGHT, Buttons_LEFT, Buttons_UP, Buttons_DOWN] = map (\<lambda>k. 2 ^ k) [0..<8]"
    by (simp add: Buttons_A_def Buttons_B_def Buttons_SELECT_def Buttons_START_def
        Buttons_RIGHT_def Buttons_LEFT_def Buttons_UP_def Buttons_DOWN_def)
qed

lemma GameBoy_del_again:
  "GameBoy_del (fst (GameBoy_del self w)) w' = (fst (GameBoy_del self w), w')"
  by (simp add: GameBoy_del_def Let_def split: option.splits)

lemma finalize_Suc: "finalize (Suc n) self w = GameBoy_del self w"
proof (induction n arbitrary: self w)
  case 0
  show ?case by (simp split: prod.splits)
next
  case (Suc n)
  obtain self' w' where d: "GameBoy_del self w = (self', w')"
    by (cases "GameBoy_del self w")
  have "finalize (Suc (Suc n)) self w = finalize (Suc n) self' w'"
    using d by simp
  also have "\<dots> = GameBoy_del self' w'"
    by (rule Suc.IH)
  also have "\<dots> = (self', w')"
    using GameBoy_del_again [of self w w'] d by simp
  finally show ?case
    using d by simp
qed

text \<open>
  C10. Destruction is at most once. One run of \<^verbatim>\<open>__del__\<close> leaves the attribute \<^verbatim>\<open>_handle\<close>
  bound to \<^verbatim>\<open>None\<close> and calls the native free at most one time: exactly when both
  attributes were bound and the handle was a non-null address, and not at all when the
  handle was never assigned. Every later run changes neither the object nor the native
  side, so any number of runs, one at least, is the same as a single run.
\<close>

theorem del_frees_at_most_once:
  "finalize (Suc n) self w = GameBoy_del self w
   \<and> GameBoy_del (fst (GameBoy_del self w)) w' = (fst (GameBoy_del self w), w')
   \<and> handle_attr (fst (GameBoy_del self w)) = Some None
   \<and> snd (GameBoy_del self w) =
       (case (lib_attr self, handle_attr self) of
          (Some lib, Some (Some a)) \<Rightarrow> if a = 0 then w else zgbc_free lib (Some a) w
        | _ \<Rightarrow> w)"
proof (intro conjI)
  show "finalize (Suc n) self w = GameBoy_del self w"
    by (rule finalize_Suc)
  show "GameBoy_del (fst (GameBoy_del self w)) w' = (fst (GameBoy_del self w), w')"
    by (rule GameBoy_del_again)
  show "handle_attr (fst (GameBoy_del self w)) = Some None"
    by (simp add: GameBoy_del_def Let_def split: option.splits)
  show "snd (GameBoy_del self w) =
       (case (lib_attr self, handle_attr self) of
          (Some lib, Some (Some a)) \<Rightarrow> if a = 0 then w else zgbc_free lib (Some a) w
        | _ \<Rightarrow> w)"
    by (simp add: GameBoy_del_def Let_def split: option.splits)
qed

lemma zgbc_core_simps [simp]:
  "symbols (zgbc_core cfg) = declared_symbols"
  "zgbc_new (zgbc_core cfg) = core_new"
  "zgbc_free (zgbc_core cfg) = core_free"
  "zgbc_load_rom (zgbc_core cfg) = core_load_rom cfg"
  "zgbc_frame (zgbc_core cfg) = core_frame cfg"
  "zgbc_set_input (zgbc_core cfg) = core_set_input"
  "zgbc_set_render_graphics (zgbc_core cfg) = core_set_render_graphics"
  "zgbc_set_render_audio (zgbc_core cfg) = core_set_render_audio"
  "zgbc_get_frame_rgba (zgbc_core cfg) = core_get_frame_rgba"
  "zgbc_get_audio_samples (zgbc_core cfg) = core_get_audio_samples"
  "zgbc_write (zgbc_core cfg) = core_write"
  by (simp_all add: zgbc_core_def)

lemma on_instance_live [simp]:
  "instances w a = Some c \<Longrightarrow>
     on_instance (Some a) f w = w\<lparr>instances := (instances w)(a \<mapsto> f c)\<rparr>"
  by (simp add: on_instance_def)

lemma load_rom_object:
  "load_rom hst (gb_object lib h) (RomBytes data) w =
     (if fst (zgbc_load_rom lib h data (length data) w) then Inr ()
      else Inl (RuntimeError ''zgbc_load_rom() failed'' None),
      snd (zgbc_load_rom lib h data (length data) w))"
  by (simp add: load_rom_def split: prod.splits)

lemma load_rom_core_accepted:
  "instances w a = Some c \<Longrightarrow> rom_accepted cfg data \<Longrightarrow>
     load_rom hst (gb_object (zgbc_core cfg) (Some a)) (RomBytes data) w =
       (Inr (), w\<lparr>instances := (instances w)(a \<mapsto> c\<lparr>cart := data\<rparr>)\<rparr>)"
  by (simp add: load_rom_def core_load_rom_def)

lemma load_rom_core_rejected:
  "instances w a = Some c \<Longrightarrow> \<not> rom_accepted cfg data \<Longrightarrow>
     load_rom hst (gb_object (zgbc_core cfg) (Some a)) (RomBytes data) w =
       (Inl (RuntimeError ''zgbc_load_rom() failed'' None), w)"
  by (simp add: load_rom_def core_load_rom_def)

lemma example_rom_accepted: "rom_accepted example_cfg example_rom"
  by (simp add: rom_accepted_def example_cfg_def example_rom_def)

lemma truncated_rom_rejected: "\<not> rom_accepted example_cfg truncated_rom"
  by (simp add: rom_accepted_def example_cfg_def truncated_rom_def)

lemma unsupported_rom_rejected: "\<not> rom_accepted example_cfg unsupported_rom"
  by (simp add: rom_accepted_def example_cfg_def unsupported_rom_def)

text \<open>
  C2. For every object and every bytes buffer, \<^verbatim>\<open>load_rom\<close> raises (the \<^verbatim>\<open>RuntimeError\<close>)
  if and only if the native load returns false, and returns \<^verbatim>\<open>None\<close> otherwise; its
  effect on the native side is that of the one native call. The object keeps its
  library and handle, so a further \<^verbatim>\<open>load_rom\<close> on it is again decided by the native
  load alone, in the state the first call left. On the modelled core a rejected image
  leaves the native side as it was, and an accepted image loads afterwards.
\<close>

theorem load_rom_raises_iff_native_fails:
  "fst (load_rom hst (gb_object lib h) (RomBytes data) w) =
      (if fst (zgbc_load_rom lib h data (length data) w) then Inr ()
       else Inl (RuntimeError ''zgbc_load_rom() failed'' None))
   \<and> isl (fst (load_rom hst (gb_object lib h) (RomBytes data) w)) =
      (\<not> fst (zgbc_load_rom lib h data (length data) w))
   \<and> snd (load_rom hst (gb_object lib h) (RomBytes data) w) =
      snd (zgbc_load_rom lib h data (length data) w)
   \<and> isl (fst (load_rom hst (gb_object lib h) (RomBytes again)
                 (snd (load_rom hst (gb_object lib h) (RomBytes data) w)))) =
      (\<not> fst (zgbc_load_rom lib h again (length again)
                 (snd (zgbc_load_rom lib h data (length data) w))))
   \<and> (instances w0 a = Some c \<and> \<not> rom_accepted cfg bad \<and> rom_accepted cfg good \<longrightarrow>
        load_rom hst (gb_object (zgbc_core cfg) (Some a)) (RomBytes bad) w0 =
          (Inl (RuntimeError ''zgbc_load_rom() failed'' None), w0)
        \<and> fst (load_rom hst (gb_object (zgbc_core cfg) (Some a)) (RomBytes good)
                 (snd (load_rom hst (gb_object (zgbc_core cfg) (Some a)) (RomBytes bad) w0))) = Inr ())"
proof (intro conjI impI)
  assume h: "instances w0 a = Some c \<and> \<not> rom_accepted cfg bad \<and> rom_accepted cfg good"
  then show bad: "load_rom hst (gb_object (zgbc_core cfg) (Some a)) (RomBytes bad) w0 =
      (Inl (RuntimeError ''zgbc_load_rom() failed'' None), w0)"
    by (simp add: load_rom_core_rejected)
  show "fst (load_rom hst (gb_object (zgbc_core cfg) (Some a)) (RomBytes good)
             (snd (load_rom hst (gb_object (zgbc_core cfg) (Some a)) (RomBytes bad) w0))) = Inr ()"
    unfolding bad using h by (simp add: load_rom_core_accepted)
qed (simp_all add: load_rom_object)

theorem load_rom_raises_iff_native_fails_witness:
  "(instances (world_with power_on) 1 = Some power_on
      \<and> \<not> rom_accepted example_cfg truncated_rom \<and> rom_accepted example_cfg example_rom)
   \<and> load_rom darwin_host (gb_object (zgbc_core example_cfg) (Some 1)) (RomBytes truncated_rom) (world_with power_on) =
       (Inl (RuntimeError ''zgbc_load_rom() failed'' None), world_with power_on)
   \<and> fst (load_rom darwin_host (gb_object (zgbc_core example_cfg) (Some 1)) (RomBytes example_rom)
            (snd (load_rom darwin_host (gb_object (zgbc_core example_cfg) (Some 1)) (RomBytes truncated_rom)
                   (world_with power_on)))) = Inr ()"
proof -
  have h: "instances (world_with power_on) 1 = Some power_on
      \<and> \<not> rom_accepted example_cfg truncated_rom \<and> rom_accepted example_cfg example_rom"
    by (simp add: world_with_def example_rom_accepted truncated_rom_rejected)
  with load_rom_raises_iff_native_fails [of darwin_host "zgbc_core example_cfg" "Some 1" "[]" "world_with power_on"
      "[]" "world_with power_on" 1 power_on example_cfg truncated_rom example_rom]
  show ?thesis
    by blast
qed

text \<open>
  C8. For every object and every pair of flags, \<^verbatim>\<open>set_headless\<close> returns \<^verbatim>\<open>None\<close> and
  its whole effect on the native side is the graphics toggle called with the graphics
  flag followed by the audio toggle called with the audio flag, both on the object's
  handle. On the modelled core the instance afterwards differs from the instance before
  in its two render flags only, and no other instance changes.
\<close>

theorem set_headless_forwards_flags:
  "set_headless (gb_object lib h) graphics audio w =
     (Inr (), zgbc_set_render_audio lib h audio (zgbc_set_render_graphics lib h graphics w))
   \<and> (instances w0 a = Some c \<longrightarrow>
        snd (set_headless (gb_object (zgbc_core cfg) (Some a)) graphics audio w0) =
          w0\<lparr>instances := (instances w0)(a \<mapsto> c\<lparr>render_graphics := graphics, render_audio := audio\<rparr>)\<rparr>)"
proof (intro conjI impI)
  show "set_headless (gb_object lib h) graphics audio w =
     (Inr (), zgbc_set_render_audio lib h audio (zgbc_set_render_graphics lib h graphics w))"
    by (simp add: set_headless_def)
next
  assume live: "instances w0 a = Some c"
  let ?w1 = "core_set_render_graphics (Some a) graphics w0"
  have g: "?w1 = w0\<lparr>instances := (instances w0)(a \<mapsto> c\<lparr>render_graphics := graphics\<rparr>)\<rparr>"
    using live by (simp add: core_set_render_graphics_def)
  then have l1: "instances ?w1 a = Some (c\<lparr>render_graphics := graphics\<rparr>)"
    by simp
  have "core_set_render_audio (Some a) audio ?w1 =
      ?w1\<lparr>instances := (instances ?w1)(a \<mapsto> c\<lparr>render_graphics := graphics, render_audio := audio\<rparr>)\<rparr>"
    using l1 by (simp add: core_set_render_audio_def)
  also have "\<dots> = w0\<lparr>instances := (instances w0)(a \<mapsto> c\<lparr>render_graphics := graphics, render_audio := audio\<rparr>)\<rparr>"
    by (simp add: g)
  finally show "snd (set_headless (gb_object (zgbc_core cfg) (Some a)) graphics audio w0) =
          w0\<lparr>instances := (instances w0)(a \<mapsto> c\<lparr>render_graphics := graphics, render_audio := audio\<rparr>)\<rparr>"
    by (simp add: set_headless_def)
qed

theorem set_headless_forwards_flags_witness:
  "instances (world_with power_on) 1 = Some power_on
   \<and> snd (set_headless (gb_object (zgbc_core example_cfg) (Some 1)) False True (world_with power_on)) =
       world_with (power_on\<lparr>render_graphics := False\<rparr>)"
proof -
  have live: "instances (world_with power_on) 1 = Some power_on"
    by (simp add: world_with_def)
  have "snd (set_headless (gb_object (zgbc_core example_cfg) (Some 1)) False True (world_with power_on)) =
      (world_with power_on)\<lparr>instances := (instances (world_with power_on))(1 \<mapsto>
         power_on\<lparr>render_graphics := False, render_audio := True\<rparr>)\<rparr>"
    using set_headless_forwards_flags [where lib = "zgbc_core example_cfg" and ?w0.0 = "world_with power_on"
        and a = 1 and c = power_on and cfg = example_cfg and graphics = False and audio = True] live
    by blast
  also have "\<dots> = world_with (power_on\<lparr>render_graphics := False\<rparr>)"
    by (simp add: world_with_def power_on_def)
  finally show ?thesis
    using live by blast
qed

lemma native_fmtchar_marked [simp]:
  "native_fmtchar [if big then CHR ''>'' else CHR ''<'', c] = None"
  by (simp add: native_fmtchar_def)

lemma native_fmtchar_h [simp]: "native_fmtchar ''h'' = Some (CHR ''h'', 2)"
  by (simp add: native_fmtchar_def native_size_def)

lemma native_fmtchar_B [simp]: "native_fmtchar ''B'' = Some (CHR ''B'', 1)"
  by (simp add: native_fmtchar_def native_size_def)

lemma cast_h_of_ctypes_view:
  "mv_cast (mv_slice_to (memoryview_of big c xs) k) ''h'' =
     Inl (TypeError ''memoryview: cannot cast between two non-byte formats'')"
  by (simp add: mv_cast_def mv_slice_to_def memoryview_of_def is_byte_format_def)

lemma get_audio_samples_raises:
  "get_audio_samples big (gb_object lib h) (int n) w =
     (Inl (TypeError ''memoryview: cannot cast between two non-byte formats''),
      snd (zgbc_get_audio_samples lib h n w))"
  by (simp add: get_audio_samples_def Let_def cast_h_of_ctypes_view split: prod.splits)

lemma length_word_bytes [simp]:
  "length (word_bytes big (w :: 'a::len word)) = LENGTH('a) div 8"
  by (simp add: word_bytes_def Let_def)

lemma length_concat_fixed:
  "\<forall>x\<in>set xs. length (f x) = k \<Longrightarrow> length (concat (map f xs)) = k * length xs"
  by (induction xs) simp_all

lemma chunk_of_concat_fixed:
  "\<forall>x\<in>set xs. length (f x) = k \<Longrightarrow> i < length xs \<Longrightarrow>
     take k (drop (k * i) (concat (map f xs))) = f (xs ! i)"
proof (induction xs arbitrary: i)
  case Nil
  then show ?case by simp
next
  case (Cons x xs)
  show ?case
  proof (cases i)
    case 0
    with Cons.prems show ?thesis by simp
  next
    case (Suc j)
    with Cons.prems have "take k (drop (k * j) (concat (map f xs))) = f (xs ! j)"
      by (intro Cons.IH) simp_all
    with Suc Cons.prems show ?thesis by simp
  qed
qed

lemma length_array_after [simp]: "length (array_after buf out) = length buf"
  by (simp add: array_after_def)

lemma nth_array_after:
  "i < length buf \<Longrightarrow> array_after buf out ! i = (if i < length out then out ! i else buf ! i)"
  by (auto simp: array_after_def nth_append)

lemma array_after_full: "length out = length buf \<Longrightarrow> array_after buf out = out"
  by (simp add: array_after_def)

lemma mv_len_slice:
  "mv_len (mv_slice_to (memoryview_of big c (xs :: 16 word list)) k) = min k (length xs)"
proof -
  have "length (concat (map (word_bytes big) xs)) = 2 * length xs"
    by (rule length_concat_fixed) simp
  then show ?thesis
    by (simp add: mv_len_def mv_slice_to_def memoryview_of_def min_def)
qed

text \<open>
  C1. The property claimed: \<^verbatim>\<open>get_audio_samples(max_samples)\<close> returns a view of exactly as
  many 16-bit samples as the native read reports. Evaluated on an instance with one
  queued sample and \<^verbatim>\<open>max_samples = 4\<close>: the native read reports 1 sample; the method
  raises \<^verbatim>\<open>TypeError\<close> instead of returning a view, because the view of the \<^verbatim>\<open>c_int16\<close>
  array has the format \<^verbatim>\<open><h\<close> and is cast to \<^verbatim>\<open>h\<close> without going through bytes; and
  the slice taken before the cast counts items, not bytes, so it holds 2 items.
\<close>

theorem get_audio_samples_failing_input:
  "fst (zgbc_get_audio_samples (zgbc_core example_cfg) (Some 1) 4
          (world_with (power_on\<lparr>audio_queue := [5]\<rparr>))) = ([5], 1)
   \<and> fst (get_audio_samples False (gb_object (zgbc_core example_cfg) (Some 1)) 4
          (world_with (power_on\<lparr>audio_queue := [5]\<rparr>))) =
       Inl (TypeError ''memoryview: cannot cast between two non-byte formats'')
   \<and> mv_len (mv_slice_to (memoryview_of False CHR ''h'' (array_after (replicate 4 0) [5 :: 16 word])) (1 * 2)) = 2"
proof (intro conjI)
  show "fst (zgbc_get_audio_samples (zgbc_core example_cfg) (Some 1) 4
          (world_with (power_on\<lparr>audio_queue := [5]\<rparr>))) = ([5], 1)"
    by (simp add: core_get_audio_samples_def world_with_def)
  show "fst (get_audio_samples False (gb_object (zgbc_core example_cfg) (Some 1)) 4
          (world_with (power_on\<lparr>audio_queue := [5]\<rparr>))) =
       Inl (TypeError ''memoryview: cannot cast between two non-byte formats'')"
    using get_audio_samples_raises [of False "zgbc_core example_cfg" "Some 1" 4] by simp
  show "mv_len (mv_slice_to (memoryview_of False CHR ''h'' (array_after (replicate 4 0) [5 :: 16 word])) (1 * 2)) = 2"
    by (simp add: mv_len_slice)
qed

lemma frame_bytes_length:
  "length (concat (map (word_bytes big) (array_after (replicate (FRAME_WIDTH * FRAME_HEIGHT) (0 :: 32 word)) out))) = 92160"
proof -
  have "length (concat (map (word_bytes big) (array_after (replicate (FRAME_WIDTH * FRAME_HEIGHT) (0 :: 32 word)) out)))
      = 4 * length (array_after (replicate (FRAME_WIDTH * FRAME_HEIGHT) (0 :: 32 word)) out)"
    by (rule length_concat_fixed) simp
  then show ?thesis
    by (simp add: FRAME_WIDTH_def FRAME_HEIGHT_def)
qed

lemma frame_bytes_pixel:
  assumes "x < FRAME_WIDTH" "y < FRAME_HEIGHT"
  shows "take 4 (drop (4 * (y * FRAME_WIDTH + x))
            (concat (map (word_bytes big) (array_after (replicate (FRAME_WIDTH * FRAME_HEIGHT) (0 :: 32 word)) out)))) =
         word_bytes big (if y * FRAME_WIDTH + x < length out then out ! (y * FRAME_WIDTH + x) else 0)"
proof -
  let ?buf = "replicate (FRAME_WIDTH * FRAME_HEIGHT) (0 :: 32 word)"
  have "y * FRAME_WIDTH + x < Suc y * FRAME_WIDTH"
    using assms(1) by simp
  also have "\<dots> \<le> FRAME_HEIGHT * FRAME_WIDTH"
    using assms(2) by (intro mult_le_mono1) simp
  finally have i: "y * FRAME_WIDTH + x < length ?buf"
    by (simp add: mult.commute)
  have "take 4 (drop (4 * (y * FRAME_WIDTH + x)) (concat (map (word_bytes big) (array_after ?buf out)))) =
        word_bytes big (array_after ?buf out ! (y * FRAME_WIDTH + x))"
    using i by (intro chunk_of_concat_fixed) simp_all
  also have "array_after ?buf out ! (y * FRAME_WIDTH + x) =
      (if y * FRAME_WIDTH + x < length out then out ! (y * FRAME_WIDTH + x) else 0)"
    using i by (simp add: nth_array_after)
  finally show ?thesis .
qed

lemma get_frame_rgba_object:
  "get_frame_rgba big (gb_object lib h) w =
     (Inr \<lparr>mv_format = ''B'', mv_itemsize = 1,
           mv_data = concat (map (word_bytes big)
                       (array_after (replicate (FRAME_WIDTH * FRAME_HEIGHT) 0) (fst (zgbc_get_frame_rgba lib h w))))\<rparr>,
      snd (zgbc_get_frame_rgba lib h w))"
  by (simp add: get_frame_rgba_def Let_def mv_cast_def memoryview_of_def is_byte_format_def
      split: prod.splits)

lemma word_bytes_example: "word_bytes False (0x11223344 :: 32 word) = [0x44, 0x33, 0x22, 0x11]"
  by (simp add: word_bytes_def upt_rec drop_bit_eq_div)

text \<open>
  C4. For every object, \<^verbatim>\<open>get_frame_rgba\<close> returns a byte view of a new array of
  \<open>FRAME_WIDTH \<times> FRAME_HEIGHT = 160 \<times> 144\<close> 32-bit pixels, 92160 bytes, filled by the one
  native call: the four bytes at offset \<open>4 \<times> (y \<times> FRAME_WIDTH + x)\<close> are the pixel the
  native function stored at index \<open>y \<times> FRAME_WIDTH + x\<close> (row-major), in the host's byte
  order. On the modelled core these are the bytes of the most recently completed frame.
\<close>

theorem get_frame_rgba_view:
  "get_frame_rgba big (gb_object lib h) w =
     (Inr \<lparr>mv_format = ''B'', mv_itemsize = 1,
           mv_data = concat (map (word_bytes big)
                       (array_after (replicate (FRAME_WIDTH * FRAME_HEIGHT) 0) (fst (zgbc_get_frame_rgba lib h w))))\<rparr>,
      snd (zgbc_get_frame_rgba lib h w))
   \<and> length (mv_data (projr (fst (get_frame_rgba big (gb_object lib h) w)))) = 92160
   \<and> 4 * (FRAME_WIDTH * FRAME_HEIGHT) = 92160 \<and> FRAME_WIDTH = 160 \<and> FRAME_HEIGHT = 144
   \<and> (x < FRAME_WIDTH \<and> y < FRAME_HEIGHT \<longrightarrow>
        take 4 (drop (4 * (y * FRAME_WIDTH + x)) (mv_data (projr (fst (get_frame_rgba big (gb_object lib h) w))))) =
        word_bytes big (if y * FRAME_WIDTH + x < length (fst (zgbc_get_frame_rgba lib h w))
                        then fst (zgbc_get_frame_rgba lib h w) ! (y * FRAME_WIDTH + x) else 0))
   \<and> (instances w0 a = Some c \<and> length (frame_buffer c) = FRAME_WIDTH * FRAME_HEIGHT \<longrightarrow>
        get_frame_rgba big (gb_object (zgbc_core cfg) (Some a)) w0 =
          (Inr \<lparr>mv_format = ''B'', mv_itemsize = 1,
                mv_data = concat (map (word_bytes big) (frame_buffer c))\<rparr>, w0))"
proof (intro conjI impI)
  show "get_frame_rgba big (gb_object lib h) w =
     (Inr \<lparr>mv_format = ''B'', mv_itemsize = 1,
           mv_data = concat (map (word_bytes big)
                       (array_after (replicate (FRAME_WIDTH * FRAME_HEIGHT) 0) (fst (zgbc_get_frame_rgba lib h w))))\<rparr>,
      snd (zgbc_get_frame_rgba lib h w))"
    by (rule get_frame_rgba_object)
  show "length (mv_data (projr (fst (get_frame_rgba big (gb_object lib h) w)))) = 92160"
    by (simp add: get_frame_rgba_object frame_bytes_length)
  show "4 * (FRAME_WIDTH * FRAME_HEIGHT) = 92160" "FRAME_WIDTH = 160" "FRAME_HEIGHT = 144"
    by (simp_all add: FRAME_WIDTH_def FRAME_HEIGHT_def)
next
  assume xy: "x < FRAME_WIDTH \<and> y < FRAME_HEIGHT"
  have d: "mv_data (projr (fst (get_frame_rgba big (gb_object lib h) w))) =
      concat (map (word_bytes big)
        (array_after (replicate (FRAME_WIDTH * FRAME_HEIGHT) 0) (fst (zgbc_get_frame_rgba lib h w))))"
    by (simp add: get_frame_rgba_object)
  show "take 4 (drop (4 * (y * FRAME_WIDTH + x)) (mv_data (projr (fst (get_frame_rgba big (gb_object lib h) w))))) =
        word_bytes big (if y * FRAME_WIDTH + x < length (fst (zgbc_get_frame_rgba lib h w))
                        then fst (zgbc_get_frame_rgba lib h w) ! (y * FRAME_WIDTH + x) else 0)"
    unfolding d using xy by (intro frame_bytes_pixel) simp_all
next
  assume "instances w0 a = Some c \<and> length (frame_buffer c) = FRAME_WIDTH * FRAME_HEIGHT"
  then show "get_frame_rgba big (gb_object (zgbc_core cfg) (Some a)) w0 =
          (Inr \<lparr>mv_format = ''B'', mv_itemsize = 1,
                mv_data = concat (map (word_bytes big) (frame_buffer c))\<rparr>, w0)"
    by (simp add: get_frame_rgba_object core_get_frame_rgba_def array_after_full)
qed

theorem get_frame_rgba_view_witness:
  "((3::nat) < FRAME_WIDTH \<and> (2::nat) < FRAME_HEIGHT)
   \<and> take 4 (drop (4 * (2 * FRAME_WIDTH + 3))
        (mv_data (projr (fst (get_frame_rgba False (gb_object (zgbc_core example_cfg) (Some 1))
           (world_with (power_on\<lparr>frame_buffer := replicate (FRAME_WIDTH * FRAME_HEIGHT) 0x11223344\<rparr>))))))) =
       [0x44, 0x33, 0x22, 0x11]
   \<and> (instances (world_with (power_on\<lparr>frame_buffer := replicate (FRAME_WIDTH * FRAME_HEIGHT) 0x11223344\<rparr>)) 1 =
         Some (power_on\<lparr>frame_buffer := replicate (FRAME_WIDTH * FRAME_HEIGHT) 0x11223344\<rparr>)
       \<and> length (frame_buffer (power_on\<lparr>frame_buffer := replicate (FRAME_WIDTH * FRAME_HEIGHT) 0x11223344\<rparr>)) =
         FRAME_WIDTH * FRAME_HEIGHT)
   \<and> mv_data (projr (fst (get_frame_rgba False (gb_object (zgbc_core example_cfg) (Some 1))
           (world_with (power_on\<lparr>frame_buffer := replicate (FRAME_WIDTH * FRAME_HEIGHT) 0x11223344\<rparr>))))) =
       concat (replicate (FRAME_WIDTH * FRAME_HEIGHT) [0x44, 0x33, 0x22, 0x11])"
proof -
  let ?c = "power_on\<lparr>frame_buffer := replicate (FRAME_WIDTH * FRAME_HEIGHT) 0x11223344\<rparr>"
  let ?w = "world_with ?c"
  let ?gb = "gb_object (zgbc_core example_cfg) (Some 1)"
  note view = get_frame_rgba_view [of False "zgbc_core example_cfg" "Some 1" ?w 3 2 ?w 1 ?c example_cfg]
  have xy: "(3::nat) < FRAME_WIDTH \<and> (2::nat) < FRAME_HEIGHT"
    by (simp add: FRAME_WIDTH_def FRAME_HEIGHT_def)
  have live: "instances ?w 1 = Some ?c \<and> length (frame_buffer ?c) = FRAME_WIDTH * FRAME_HEIGHT"
    by (simp add: world_with_def)
  have out: "fst (zgbc_get_frame_rgba (zgbc_core example_cfg) (Some 1) ?w) =
      replicate (FRAME_WIDTH * FRAME_HEIGHT) 0x11223344"
    by (simp add: core_get_frame_rgba_def world_with_def)
  have "take 4 (drop (4 * (2 * FRAME_WIDTH + 3)) (mv_data (projr (fst (get_frame_rgba False ?gb ?w))))) =
        word_bytes False (if 2 * FRAME_WIDTH + 3 < length (fst (zgbc_get_frame_rgba (zgbc_core example_cfg) (Some 1) ?w))
                          then fst (zgbc_get_frame_rgba (zgbc_core example_cfg) (Some 1) ?w) ! (2 * FRAME_WIDTH + 3) else 0)"
    using view xy by blast
  also have "\<dots> = [0x44, 0x33, 0x22, 0x11]"
    unfolding out by (simp add: FRAME_WIDTH_def FRAME_HEIGHT_def word_bytes_example)
  finally have pixel: "take 4 (drop (4 * (2 * FRAME_WIDTH + 3)) (mv_data (projr (fst (get_frame_rgba False ?gb ?w))))) =
        [0x44, 0x33, 0x22, 0x11]" .
  have "get_frame_rgba False ?gb ?w =
      (Inr \<lparr>mv_format = ''B'', mv_itemsize = 1, mv_data = concat (map (word_bytes False) (frame_buffer ?c))\<rparr>, ?w)"
    using view live by blast
  then have "mv_data (projr (fst (get_frame_rgba False ?gb ?w))) =
      concat (map (word_bytes False) (frame_buffer ?c))"
    by simp
  also have "\<dots> = concat (replicate (FRAME_WIDTH * FRAME_HEIGHT) [0x44, 0x33, 0x22, 0x11])"
    by (simp add: word_bytes_example)
  finally have whole: "mv_data (projr (fst (get_frame_rgba False ?gb ?w))) =
      concat (replicate (FRAME_WIDTH * FRAME_HEIGHT) [0x44, 0x33, 0x22, 0x11])" .
  from xy pixel live whole show ?thesis
    by blast
qed

lemma core_frame_live:
  "instances w a = Some c \<Longrightarrow>
     \<exists>c'. instances (core_frame cfg (Some a) w) a = Some c' \<and> ticks c' = ticks c + ticks_per_frame cfg"
  by (simp add: core_frame_def)

lemma frames_core:
  "instances w a = Some c \<Longrightarrow>
     fst (frames n (gb_object (zgbc_core cfg) (Some a)) w) = Inr ()
     \<and> core_ticks (Some a) (snd (frames n (gb_object (zgbc_core cfg) (Some a)) w)) =
         Some (ticks c + n * ticks_per_frame cfg)"
proof (induction n arbitrary: w c)
  case 0
  then show ?case by (simp add: core_ticks_def)
next
  case (Suc n)
  from core_frame_live [OF Suc.prems, of cfg] obtain c' where
    c': "instances (core_frame cfg (Some a) w) a = Some c'"
        "ticks c' = ticks c + ticks_per_frame cfg"
    by blast
  have "frames (Suc n) (gb_object (zgbc_core cfg) (Some a)) w =
        frames n (gb_object (zgbc_core cfg) (Some a)) (core_frame cfg (Some a) w)"
    by (simp add: frame_def)
  with Suc.IH [OF c'(1)] c'(2) show ?case
    by (simp add: algebra_simps)
qed

text \<open>
  C3. On the modelled core: for every image the core accepts, on a live instance,
  \<^verbatim>\<open>load_rom\<close> returns normally and leaves the clock where it was; \<open>n\<close> calls of
  \<^verbatim>\<open>frame\<close> after it all return normally (\<^verbatim>\<open>None\<close>, no partial result), and the instance
  has then consumed exactly \<open>n\<close> times the fixed tick count of a frame.
\<close>

theorem frames_consume_fixed_ticks:
  "instances w a = Some c \<and> rom_accepted cfg data \<longrightarrow>
     fst (load_rom hst (gb_object (zgbc_core cfg) (Some a)) (RomBytes data) w) = Inr ()
     \<and> core_ticks (Some a) (snd (load_rom hst (gb_object (zgbc_core cfg) (Some a)) (RomBytes data) w)) =
         Some (ticks c)
     \<and> fst (frames n (gb_object (zgbc_core cfg) (Some a))
              (snd (load_rom hst (gb_object (zgbc_core cfg) (Some a)) (RomBytes data) w))) = Inr ()
     \<and> core_ticks (Some a)
         (snd (frames n (gb_object (zgbc_core cfg) (Some a))
                (snd (load_rom hst (gb_object (zgbc_core cfg) (Some a)) (RomBytes data) w)))) =
         Some (ticks c + n * ticks_per_frame cfg)"
proof
  assume h: "instances w a = Some c \<and> rom_accepted cfg data"
  let ?w1 = "w\<lparr>instances := (instances w)(a \<mapsto> c\<lparr>cart := data\<rparr>)\<rparr>"
  have l: "load_rom hst (gb_object (zgbc_core cfg) (Some a)) (RomBytes data) w = (Inr (), ?w1)"
    using h by (simp add: load_rom_core_accepted)
  have i: "instances ?w1 a = Some (c\<lparr>cart := data\<rparr>)"
    by simp
  from frames_core [OF i, of n cfg] show
    "fst (load_rom hst (gb_object (zgbc_core cfg) (Some a)) (RomBytes data) w) = Inr ()
     \<and> core_ticks (Some a) (snd (load_rom hst (gb_object (zgbc_core cfg) (Some a)) (RomBytes data) w)) =
         Some (ticks c)
     \<and> fst (frames n (gb_object (zgbc_core cfg) (Some a))
              (snd (load_rom hst (gb_object (zgbc_core cfg) (Some a)) (RomBytes data) w))) = Inr ()
     \<and> core_ticks (Some a)
         (snd (frames n (gb_object (zgbc_core cfg) (Some a))
                (snd (load_rom hst (gb_object (zgbc_core cfg) (Some a)) (RomBytes data) w)))) =
         Some (ticks c + n * ticks_per_frame cfg)"
    by (simp add: l core_ticks_def)
qed

theorem frames_consume_fixed_ticks_witness:
  "(instances (world_with power_on) 1 = Some power_on \<and> rom_accepted example_cfg example_rom)
   \<and> fst (frames 3 (gb_object (zgbc_core example_cfg) (Some 1))
            (snd (load_rom darwin_host (gb_object (zgbc_core example_cfg) (Some 1)) (RomBytes example_rom)
                   (world_with power_on)))) = Inr ()
   \<and> core_ticks (Some 1)
       (snd (frames 3 (gb_object (zgbc_core example_cfg) (Some 1))
              (snd (load_rom darwin_host (gb_object (zgbc_core example_cfg) (Some 1)) (RomBytes example_rom)
                     (world_with power_on))))) = Some (3 * 70224)"
  using frames_consume_fixed_ticks [of "world_with power_on" 1 power_on example_cfg example_rom darwin_host 3]
    example_rom_accepted
  by (simp add: world_with_def power_on_def example_cfg_def)

lemma bus_read_0_no_overlay:
  "\<not> overlay c \<Longrightarrow> cart c \<noteq> [] \<Longrightarrow> bus_read cfg c 0 = Some (hd (cart c))"
  by (cases "cart c") (simp_all add: bus_read_def)

text \<open>
  C5. For every object, \<^verbatim>\<open>skip_boot\<close> is exactly the one raw memory write of value 1 to
  address \<open>0xFF50\<close> on the object's handle, and returns \<^verbatim>\<open>None\<close>. On the modelled core,
  with a cartridge image loaded, a read of address \<open>0x0000\<close> after it gives the first
  byte of the cartridge image, not of the boot image.
\<close>

theorem skip_boot_is_one_write:
  "skip_boot (gb_object lib h) w = (Inr (), zgbc_write lib h 0xFF50 1 w)
   \<and> (instances w0 a = Some c \<and> cart c \<noteq> [] \<longrightarrow>
        core_read cfg (Some a) 0 (snd (skip_boot (gb_object (zgbc_core cfg) (Some a)) w0)) =
          Some (hd (cart c)))"
proof (intro conjI impI)
  show "skip_boot (gb_object lib h) w = (Inr (), zgbc_write lib h 0xFF50 1 w)"
    by (simp add: skip_boot_def)
next
  assume h: "instances w0 a = Some c \<and> cart c \<noteq> []"
  then have "bus_read cfg (c\<lparr>overlay := False\<rparr>) 0 = Some (hd (cart c))"
    by (simp add: bus_read_0_no_overlay)
  with h show "core_read cfg (Some a) 0 (snd (skip_boot (gb_object (zgbc_core cfg) (Some a)) w0)) =
      Some (hd (cart c))"
    by (simp add: skip_boot_def core_write_def core_read_def)
qed

theorem skip_boot_is_one_write_witness:
  "(instances (world_with (power_on\<lparr>cart := example_rom\<rparr>)) 1 = Some (power_on\<lparr>cart := example_rom\<rparr>)
      \<and> cart (power_on\<lparr>cart := example_rom\<rparr>) \<noteq> [])
   \<and> core_read example_cfg (Some 1) 0 (world_with (power_on\<lparr>cart := example_rom\<rparr>)) = Some 0x31
   \<and> core_read example_cfg (Some 1) 0
        (snd (skip_boot (gb_object (zgbc_core example_cfg) (Some 1))
               (world_with (power_on\<lparr>cart := example_rom\<rparr>)))) = Some 0xC3"
proof -
  let ?c = "power_on\<lparr>cart := example_rom\<rparr>"
  let ?w = "world_with ?c"
  have live: "instances ?w 1 = Some ?c \<and> cart ?c \<noteq> []"
    by (simp add: world_with_def example_rom_def)
  have before: "core_read example_cfg (Some 1) 0 ?w = Some 0x31"
    by (simp add: core_read_def world_with_def bus_read_def power_on_def example_cfg_def)
  have "core_read example_cfg (Some 1) 0 (snd (skip_boot (gb_object (zgbc_core example_cfg) (Some 1)) ?w)) =
      Some (hd (cart ?c))"
    using skip_boot_is_one_write [of "zgbc_core example_cfg" "Some 1" ?w ?w 1 ?c example_cfg] live
    by blast
  also have "hd (cart ?c) = 0xC3"
    by (simp add: example_rom_def)
  finally have after: "core_read example_cfg (Some 1) 0
      (snd (skip_boot (gb_object (zgbc_core example_cfg) (Some 1)) ?w)) = Some 0xC3" .
  from live before after show ?thesis
    by blast
qed

lemma declare_symbols_None:
  "(declare_symbols lib = None) = (\<forall>name\<in>set declared_symbols. name \<in> set (symbols lib))"
  by (auto simp: declare_symbols_def find_None_iff)

lemma declare_symbols_core [simp]: "declare_symbols (zgbc_core cfg) = None"
  by (simp add: declare_symbols_None)

lemma declare_symbols_stripped: "declare_symbols stripped_lib = Some (AttributeError ''zgbc_load_rom'')"
  by (simp add: declare_symbols_def stripped_lib_def declared_symbols_def)

lemma GameBoy_init_given:
  "GameBoy_init hst rom (Some lib) w =
     (case declare_symbols lib of
        Some err \<Rightarrow> (Some err, \<lparr>lib_attr = Some lib, handle_attr = None\<rparr>, w)
      | None \<Rightarrow>
          if \<not> truthy (fst (zgbc_new lib w))
          then (Some (RuntimeError ''zgbc_new() returned NULL'' None),
                gb_object lib (fst (zgbc_new lib w)), snd (zgbc_new lib w))
          else case rom of
                 None \<Rightarrow> (None, gb_object lib (fst (zgbc_new lib w)), snd (zgbc_new lib w))
               | Some r \<Rightarrow>
                   ((case fst (load_rom hst (gb_object lib (fst (zgbc_new lib w))) r (snd (zgbc_new lib w))) of
                       Inl err \<Rightarrow> Some err
                     | Inr u \<Rightarrow> None),
                    gb_object lib (fst (zgbc_new lib w)),
                    snd (load_rom hst (gb_object lib (fst (zgbc_new lib w))) r (snd (zgbc_new lib w)))))"
  by (simp add: GameBoy_init_def gb_object_def Let_def split: prod.splits option.splits sum.splits)

lemma core_new_fresh:
  "core_new fresh_world =
     (Some 1, \<lparr>instances = [1 \<mapsto> power_on], next_addr = 1, room = 1\<rparr>)"
  by (simp add: core_new_def fresh_world_def)

lemma core_new_exhausted: "core_new exhausted_world = (None, exhausted_world)"
  by (simp add: core_new_def exhausted_world_def)

text \<open>
  C7, amended. With a library object passed, construction raises exactly when the
  library does not export one of the ten names the constructor looks up, or the native
  create returns a null handle, or a ROM argument was supplied and \<^verbatim>\<open>load_rom\<close> raises on
  it. A missing name raises \<^verbatim>\<open>AttributeError\<close> for the first such name before any native
  call, and the object has no handle. On a null handle the error is the \<^verbatim>\<open>RuntimeError\<close>
  of the constructor and nothing but create has run. On a non-null handle without a ROM
  argument the object is produced and only create has run; with a ROM argument
  \<^verbatim>\<open>load_rom\<close> is invoked on the new object before construction returns, and its
  exception, if any, is the constructor's. Without a library object, a failure of
  \<^verbatim>\<open>load_library\<close> is raised before any lookup or native call, and a library found is
  used as if it had been passed.
\<close>

theorem GameBoy_init_outcome:
  "(fst (GameBoy_init hst rom (Some lib) w) \<noteq> None) =
      (declare_symbols lib \<noteq> None
       \<or> \<not> truthy (fst (zgbc_new lib w))
       \<or> (\<exists>r. rom = Some r
              \<and> isl (fst (load_rom hst (gb_object lib (fst (zgbc_new lib w))) r (snd (zgbc_new lib w))))))
   \<and> (declare_symbols lib = None) = (\<forall>name\<in>set declared_symbols. name \<in> set (symbols lib))
   \<and> (declare_symbols lib = Some err \<longrightarrow>
        (\<exists>name. err = AttributeError name \<and> name \<in> set declared_symbols \<and> name \<notin> set (symbols lib))
        \<and> GameBoy_init hst rom (Some lib) w = (Some err, \<lparr>lib_attr = Some lib, handle_attr = None\<rparr>, w))
   \<and> (declare_symbols lib = None \<and> \<not> truthy (fst (zgbc_new lib w)) \<longrightarrow>
        GameBoy_init hst rom (Some lib) w =
          (Some (RuntimeError ''zgbc_new() returned NULL'' None),
           gb_object lib (fst (zgbc_new lib w)), snd (zgbc_new lib w)))
   \<and> (declare_symbols lib = None \<and> truthy (fst (zgbc_new lib w)) \<longrightarrow>
        GameBoy_init hst None (Some lib) w =
          (None, gb_object lib (fst (zgbc_new lib w)), snd (zgbc_new lib w)))
   \<and> (declare_symbols lib = None \<and> truthy (fst (zgbc_new lib w)) \<longrightarrow>
        GameBoy_init hst (Some r) (Some lib) w =
          ((case fst (load_rom hst (gb_object lib (fst (zgbc_new lib w))) r (snd (zgbc_new lib w))) of
              Inl err \<Rightarrow> Some err
            | Inr u \<Rightarrow> None),
           gb_object lib (fst (zgbc_new lib w)),
           snd (load_rom hst (gb_object lib (fst (zgbc_new lib w))) r (snd (zgbc_new lib w)))))
   \<and> (load_library hst None = Inl lerr \<longrightarrow>
        GameBoy_init hst rom None w = (Some lerr, \<lparr>lib_attr = None, handle_attr = None\<rparr>, w))
   \<and> (load_library hst None = Inr found \<longrightarrow>
        GameBoy_init hst rom None w = GameBoy_init hst rom (Some found) w)"
proof (intro conjI impI)
  show "(fst (GameBoy_init hst rom (Some lib) w) \<noteq> None) =
      (declare_symbols lib \<noteq> None
       \<or> \<not> truthy (fst (zgbc_new lib w))
       \<or> (\<exists>r. rom = Some r
              \<and> isl (fst (load_rom hst (gb_object lib (fst (zgbc_new lib w))) r (snd (zgbc_new lib w))))))"
    by (cases rom; cases "declare_symbols lib") (auto simp: GameBoy_init_given split: sum.splits)
next
  show "(declare_symbols lib = None) = (\<forall>name\<in>set declared_symbols. name \<in> set (symbols lib))"
    by (rule declare_symbols_None)
next
  assume "declare_symbols lib = Some err"
  then obtain name where "find (\<lambda>name. name \<notin> set (symbols lib)) declared_symbols = Some name"
      and "err = AttributeError name"
    by (auto simp: declare_symbols_def)
  then show "\<exists>name. err = AttributeError name \<and> name \<in> set declared_symbols \<and> name \<notin> set (symbols lib)"
    by (auto simp: find_Some_iff)
next
  assume "declare_symbols lib = Some err"
  then show "GameBoy_init hst rom (Some lib) w = (Some err, \<lparr>lib_attr = Some lib, handle_attr = None\<rparr>, w)"
    by (simp add: GameBoy_init_given)
next
  assume "load_library hst None = Inl lerr"
  then show "GameBoy_init hst rom None w = (Some lerr, \<lparr>lib_attr = None, handle_attr = None\<rparr>, w)"
    by (simp add: GameBoy_init_def)
next
  assume "load_library hst None = Inr found"
  then show "GameBoy_init hst rom None w = GameBoy_init hst rom (Some found) w"
    by (simp add: GameBoy_init_def)
qed (simp_all add: GameBoy_init_given)

theorem GameBoy_init_outcome_witness:
  "(declare_symbols stripped_lib = Some (AttributeError ''zgbc_load_rom'')
      \<and> GameBoy_init darwin_host None (Some stripped_lib) fresh_world =
          (Some (AttributeError ''zgbc_load_rom''), \<lparr>lib_attr = Some stripped_lib, handle_attr = None\<rparr>,
           fresh_world))
   \<and> (declare_symbols (zgbc_core example_cfg) = None
      \<and> \<not> truthy (fst (zgbc_new (zgbc_core example_cfg) exhausted_world))
      \<and> fst (GameBoy_init darwin_host None (Some (zgbc_core example_cfg)) exhausted_world) =
          Some (RuntimeError ''zgbc_new() returned NULL'' None))
   \<and> (truthy (fst (zgbc_new (zgbc_core example_cfg) fresh_world))
      \<and> GameBoy_init darwin_host None (Some (zgbc_core example_cfg)) fresh_world =
          (None, gb_object (zgbc_core example_cfg) (Some 1),
           \<lparr>instances = [1 \<mapsto> power_on], next_addr = 1, room = 1\<rparr>)
      \<and> GameBoy_init darwin_host (Some (RomPath ''roms/demo.gb'')) (Some (zgbc_core example_cfg)) fresh_world =
          (None, gb_object (zgbc_core example_cfg) (Some 1),
           \<lparr>instances = [1 \<mapsto> power_on\<lparr>cart := example_rom\<rparr>], next_addr = 1, room = 1\<rparr>))
   \<and> (load_library bare_host None =
          Inl (RuntimeError ''Unable to locate libzgbc; set ZGBC_LIB or pass path explicitly''
                (Some (OSError ''libzgbc.so'')))
      \<and> fst (GameBoy_init bare_host None None fresh_world) =
          Some (RuntimeError ''Unable to locate libzgbc; set ZGBC_LIB or pass path explicitly''
                 (Some (OSError ''libzgbc.so''))))
   \<and> (load_library darwin_host None = Inr (zgbc_core example_cfg)
      \<and> GameBoy_init darwin_host None None fresh_world =
          GameBoy_init darwin_host None (Some (zgbc_core example_cfg)) fresh_world)"
proof -
  let ?lib = "zgbc_core example_cfg"
  let ?w1 = "\<lparr>instances = [1 \<mapsto> power_on], next_addr = 1, room = 1\<rparr>"
  have s: "declare_symbols stripped_lib = Some (AttributeError ''zgbc_load_rom'')"
    by (rule declare_symbols_stripped)
  have k: "declare_symbols ?lib = None"
    by simp
  have a: "\<not> truthy (fst (zgbc_new ?lib exhausted_world))"
    by (simp add: core_new_exhausted)
  have b: "truthy (fst (zgbc_new ?lib fresh_world))"
    by (simp add: core_new_fresh)
  have c: "load_library bare_host None =
      Inl (RuntimeError ''Unable to locate libzgbc; set ZGBC_LIB or pass path explicitly''
            (Some (OSError ''libzgbc.so'')))"
    by (simp add: load_library_def bare_host_def darwin_host_def default_library_names_def)
  have d: "load_library darwin_host None = Inr ?lib"
    by (simp add: load_library_def darwin_host_def default_library_names_def)
  have l: "load_rom darwin_host (gb_object ?lib (Some 1)) (RomPath ''roms/demo.gb'') ?w1 =
      (Inr (), \<lparr>instances = [1 \<mapsto> power_on\<lparr>cart := example_rom\<rparr>], next_addr = 1, room = 1\<rparr>)"
    using example_rom_accepted
    by (simp add: load_rom_def darwin_host_def core_load_rom_def example_rom_def)
  note t0 = GameBoy_init_outcome [where hst = darwin_host and rom = None and lib = stripped_lib
      and w = fresh_world and err = "AttributeError ''zgbc_load_rom''"]
  note t1 = GameBoy_init_outcome [where hst = darwin_host and rom = None and lib = ?lib
      and w = exhausted_world]
  note t2 = GameBoy_init_outcome [where hst = darwin_host and rom = None and lib = ?lib
      and w = fresh_world and r = "RomPath ''roms/demo.gb''" and found = ?lib]
  note t3 = GameBoy_init_outcome [where hst = bare_host and rom = None and w = fresh_world
      and lerr = "RuntimeError ''Unable to locate libzgbc; set ZGBC_LIB or pass path explicitly''
                  (Some (OSError ''libzgbc.so''))"]
  have r0: "GameBoy_init darwin_host None (Some stripped_lib) fresh_world =
      (Some (AttributeError ''zgbc_load_rom''), \<lparr>lib_attr = Some stripped_lib, handle_attr = None\<rparr>,
       fresh_world)"
    using t0 s by blast
  have r1: "fst (GameBoy_init darwin_host None (Some ?lib) exhausted_world) =
      Some (RuntimeError ''zgbc_new() returned NULL'' None)"
    using t1 a k by simp
  have r2: "GameBoy_init darwin_host None (Some ?lib) fresh_world = (None, gb_object ?lib (Some 1), ?w1)"
    using t2 b k by (simp add: core_new_fresh)
  have r3: "GameBoy_init darwin_host (Some (RomPath ''roms/demo.gb'')) (Some ?lib) fresh_world =
      (None, gb_object ?lib (Some 1),
       \<lparr>instances = [1 \<mapsto> power_on\<lparr>cart := example_rom\<rparr>], next_addr = 1, room = 1\<rparr>)"
    using t2 b k by (simp add: core_new_fresh l [unfolded One_nat_def])
  have r4: "fst (GameBoy_init bare_host None None fresh_world) =
      Some (RuntimeError ''Unable to locate libzgbc; set ZGBC_LIB or pass path explicitly''
             (Some (OSError ''libzgbc.so'')))"
    using t3 c by simp
  have r5: "GameBoy_init darwin_host None None fresh_world =
      GameBoy_init darwin_host None (Some ?lib) fresh_world"
    using t2 d by blast
  from s k a b c d r0 r1 r2 r3 r4 r5 show ?thesis
    by blast
qed

text \<open>
  The constructor does not raise only on a null handle: with an image the core rejects,
  create returns a handle and the constructor raises the error of \<^verbatim>\<open>load_rom\<close>.
\<close>

theorem GameBoy_init_raises_on_failed_load:
  "\<not> ((fst (GameBoy_init darwin_host (Some (RomBytes truncated_rom)) (Some (zgbc_core example_cfg)) fresh_world)
          \<noteq> None)
       = (fst (zgbc_new (zgbc_core example_cfg) fresh_world) = None))"
proof -
  have l: "load_rom darwin_host (gb_object (zgbc_core example_cfg) (Some 1)) (RomBytes truncated_rom)
        \<lparr>instances = [1 \<mapsto> power_on], next_addr = 1, room = 1\<rparr> =
      (Inl (RuntimeError ''zgbc_load_rom() failed'' None),
       \<lparr>instances = [1 \<mapsto> power_on], next_addr = 1, room = 1\<rparr>)"
    by (rule load_rom_core_rejected) (simp_all add: truncated_rom_rejected)
  have "fst (GameBoy_init darwin_host (Some (RomBytes truncated_rom)) (Some (zgbc_core example_cfg)) fresh_world) =
      Some (RuntimeError ''zgbc_load_rom() failed'' None)"
    by (simp add: GameBoy_init_given core_new_fresh l [unfolded One_nat_def])
  then show ?thesis
    by (simp add: core_new_fresh)
qed

end
